theory Spec2Isabelle
  imports Main "HOL-Library.Signed_Division"
begin

section \<open>C strings and the library primitives the code calls\<close>

text \<open>
  A C string is the list of its characters before the terminating NUL; a pointer that
  may be NULL is an \<open>option\<close>. \<open>strcmp\<close>, \<open>strncmp\<close> and glib's
  \<open>g_strcmp0\<close> return an integer of which C fixes the sign only: negative, zero or
  positive as the first argument sorts before, with or after the second, characters
  compared as unsigned bytes. The code only ever tests the result against 0.
\<close>

fun strcmp :: "string \<Rightarrow> string \<Rightarrow> int" where
  "strcmp [] [] = 0"
| "strcmp [] (y # ys) = - 1"
| "strcmp (x # xs) [] = 1"
| "strcmp (x # xs) (y # ys) =
     (if x = y then strcmp xs ys
      else if (of_char x :: nat) < of_char y then - 1 else 1)"

fun strncmp :: "string \<Rightarrow> string \<Rightarrow> nat \<Rightarrow> int" where
  "strncmp xs ys 0 = 0"
| "strncmp [] [] (Suc n) = 0"
| "strncmp [] (y # ys) (Suc n) = - 1"
| "strncmp (x # xs) [] (Suc n) = 1"
| "strncmp (x # xs) (y # ys) (Suc n) =
     (if x = y then strncmp xs ys n
      else if (of_char x :: nat) < of_char y then - 1 else 1)"

text \<open>glib: a NULL argument sorts before every string and equals only NULL.\<close>

fun g_strcmp0 :: "string option \<Rightarrow> string option \<Rightarrow> int" where
  "g_strcmp0 None None = 0"
| "g_strcmp0 None (Some b) = - 1"
| "g_strcmp0 (Some a) None = 1"
| "g_strcmp0 (Some a) (Some b) = strcmp a b"

subsection \<open>printf conversions\<close>

definition digit_char :: "nat \<Rightarrow> char" where
  "digit_char d = ''0123456789'' ! d"

fun dec_nat :: "nat \<Rightarrow> string" where
  "dec_nat n = (if n < 10 then [digit_char n] else dec_nat (n div 10) @ [digit_char (n mod 10)])"

text \<open>\<open>%d\<close>: a minus sign for a negative value, then the decimal digits.\<close>

definition printf_d :: "int \<Rightarrow> string" where
  "printf_d i = (if i < 0 then CHR ''-'' # dec_nat (nat (- i)) else dec_nat (nat i))"

text \<open>\<open>%s\<close>: the string; glibc prints a NULL argument as \<open>(null)\<close>.\<close>

definition printf_s :: "string option \<Rightarrow> string" where
  "printf_s p = (case p of None \<Rightarrow> ''(null)'' | Some s \<Rightarrow> s)"

text \<open>\<open>%02d\<close> on a value below 100, as \<open>%H\<close>, \<open>%M\<close> and \<open>%S\<close> print it.\<close>

definition two_digits :: "nat \<Rightarrow> string" where
  "two_digits n = [digit_char (n div 10 mod 10), digit_char (n mod 10)]"

subsection \<open>Machine integers\<close>

text \<open>
  \<open>GTimeSpan\<close> is a \<open>gint64\<close> count of microseconds; \<open>int\<close> has 32 bits. The
  conversions are written out: a value that does not fit wraps around (two's complement).
  C's \<open>/\<close> truncates towards zero: \<open>sdiv\<close>.
\<close>

definition gint64_wrap :: "int \<Rightarrow> int" where
  "gint64_wrap x = (x + 2 ^ 63) mod 2 ^ 64 - 2 ^ 63"

definition int_of_gint64 :: "int \<Rightarrow> int" where
  "int_of_gint64 x = (x + 2 ^ 31) mod 2 ^ 32 - 2 ^ 31"

definition G_TIME_SPAN_SECOND :: int where
  "G_TIME_SPAN_SECOND = 1000000"

definition G_TIME_SPAN_MINUTE :: int where
  "G_TIME_SPAN_MINUTE = 60000000"

definition G_TIME_SPAN_HOUR :: int where
  "G_TIME_SPAN_HOUR = 3600000000"

subsection \<open>glib time\<close>

text \<open>
  A \<open>GDateTime\<close> is an instant together with the time zone it is expressed in: the
  instant in microseconds since the Unix epoch, and the zone's offset from UTC, in seconds,
  at that instant. A \<open>GTimeVal\<close> is an instant in UTC, as seconds and microseconds.
  A call of \<open>g_date_time_new_now_local\<close> reads the clock: the value it returns is an
  argument of the function that calls it, one argument for each call.
\<close>

record GDateTime =
  instant :: int
  utc_offset :: int

record GTimeVal =
  tv_sec :: int
  tv_usec :: int

definition g_date_time_new_from_timeval_utc :: "GTimeVal \<Rightarrow> GDateTime" where
  "g_date_time_new_from_timeval_utc tv =
     \<lparr>instant = tv_sec tv * 1000000 + tv_usec tv, utc_offset = 0\<rparr>"

text \<open>
  \<open>g_date_time_to_local\<close>: the same instant in the local time zone, whose offset at
  an instant (in seconds) is given by \<open>tz\<close>. The code never calls it; it is what a
  conversion from UTC to local time is.
\<close>

definition g_date_time_to_local :: "(int \<Rightarrow> int) \<Rightarrow> GDateTime \<Rightarrow> GDateTime" where
  "g_date_time_to_local tz t = t\<lparr>utc_offset := tz (instant t div 1000000)\<rparr>"

definition g_date_time_difference :: "GDateTime \<Rightarrow> GDateTime \<Rightarrow> int" where
  "g_date_time_difference end_t begin_t = gint64_wrap (instant end_t - instant begin_t)"

text \<open>\<open>g_date_time_format\<close> with the format \<open>%H:%M:%S\<close>: the wall clock of the
  value's own time zone.\<close>

definition g_date_time_format_HMS :: "GDateTime \<Rightarrow> string" where
  "g_date_time_format_HMS t =
     (let s = nat ((instant t div 1000000 + utc_offset t) mod 86400)
      in two_digits (s div 3600) @ '':'' @ two_digits (s mod 3600 div 60) @ '':''
           @ two_digits (s mod 60))"

subsection \<open>ncurses pads\<close>

text \<open>
  The attributes are the macros of the theme header, by name. A pad is what the code has
  done to it: its size and the calls made on it, in order (\<open>wprintw\<close> after the
  expansion of its format writes a string as \<open>waddstr\<close> does).
\<close>

datatype colour =
  COLOUR_TEXT | COLOUR_TIME | COLOUR_THEM
| COLOUR_ONLINE | COLOUR_AWAY | COLOUR_CHAT | COLOUR_DND | COLOUR_XA | COLOUR_OFFLINE

datatype curses_call =
  Wbkgd colour | Scrollok bool | Wattron colour | Wattroff colour | Waddstr string

record WINDOW =
  maxy :: int
  maxx :: int
  calls :: "curses_call list"

definition newpad :: "int \<Rightarrow> int \<Rightarrow> WINDOW" where
  "newpad nlines ncols = \<lparr>maxy = nlines, maxx = ncols, calls = []\<rparr>"

definition wcall :: "WINDOW \<Rightarrow> curses_call \<Rightarrow> WINDOW" where
  "wcall w c = w\<lparr>calls := calls w @ [c]\<rparr>"

definition wbkgd :: "WINDOW \<Rightarrow> colour \<Rightarrow> WINDOW" where
  "wbkgd w c = wcall w (Wbkgd c)"

definition scrollok :: "WINDOW \<Rightarrow> bool \<Rightarrow> WINDOW" where
  "scrollok w b = wcall w (Scrollok b)"

definition wattron :: "WINDOW \<Rightarrow> colour \<Rightarrow> WINDOW" where
  "wattron w c = wcall w (Wattron c)"

definition wattroff :: "WINDOW \<Rightarrow> colour \<Rightarrow> WINDOW" where
  "wattroff w c = wcall w (Wattroff c)"

definition waddstr :: "WINDOW \<Rightarrow> string \<Rightarrow> WINDOW" where
  "waddstr w s = wcall w (Waddstr s)"

definition wprintw :: "WINDOW \<Rightarrow> string \<Rightarrow> WINDOW" where
  "wprintw w s = wcall w (Waddstr s)"

text \<open>
  What the calls put into the pad: each character written carries the attributes that are
  switched on when it is written. \<open>pen\<close> is the set of attributes switched on after
  the calls so far; no attribute on is the default rendition.
\<close>

type_synonym cell = "colour set \<times> char"

fun attrs_after :: "colour set \<Rightarrow> curses_call list \<Rightarrow> colour set" where
  "attrs_after A [] = A"
| "attrs_after A (Wattron c # cs) = attrs_after (insert c A) cs"
| "attrs_after A (Wattroff c # cs) = attrs_after (A - {c}) cs"
| "attrs_after A (Wbkgd c # cs) = attrs_after A cs"
| "attrs_after A (Scrollok b # cs) = attrs_after A cs"
| "attrs_after A (Waddstr s # cs) = attrs_after A cs"

fun cells_from :: "colour set \<Rightarrow> curses_call list \<Rightarrow> cell list" where
  "cells_from A [] = []"
| "cells_from A (Wattron c # cs) = cells_from (insert c A) cs"
| "cells_from A (Wattroff c # cs) = cells_from (A - {c}) cs"
| "cells_from A (Wbkgd c # cs) = cells_from A cs"
| "cells_from A (Scrollok b # cs) = cells_from A cs"
| "cells_from A (Waddstr s # cs) = map (Pair A) s @ cells_from A cs"

definition pen :: "WINDOW \<Rightarrow> colour set" where
  "pen w = attrs_after {} (calls w)"

definition cells :: "WINDOW \<Rightarrow> cell list" where
  "cells w = cells_from {} (calls w)"

definition pad_text :: "WINDOW \<Rightarrow> string" where
  "pad_text w = map snd (cells w)"

section \<open>window.c\<close>

text \<open>
  The window kinds: the five enumerators the \<open>switch\<close> of \<open>win_create\<close> names, and
  any other value of the enumeration's integer type, which the \<open>switch\<close> sends to
  \<open>default\<close>. A function pointer of the behaviour table is the name of the function it
  holds; the one field that may be NULL is an \<open>option\<close>. The fields \<open>from\<close> and
  \<open>type\<close> of the C structure are \<open>from_title\<close> and \<open>win_type\<close> here, and the
  leading underscore of a static function is written \<open>priv_\<close>.
\<close>

datatype win_type_t =
  WIN_CONSOLE | WIN_CHAT | WIN_MUC | WIN_PRIVATE | WIN_DUCK | WIN_UNRECOGNISED int

datatype print_time_fn = Fn_win_print_time
datatype print_line_fn = Fn_win_print_line
datatype refresh_fn = Fn_win_refresh
datatype presence_colour_fn = Fn_win_presence_colour_on | Fn_win_presence_colour_off
datatype show_contact_fn = Fn_win_show_contact
datatype handle_error_fn = Fn_default_handle_error_message | Fn_muc_handle_error_message
datatype incoming_fn = Fn_print_incoming_message

record ProfWin =
  from_title :: string
  win :: WINDOW
  y_pos :: int
  paged :: int
  unread :: int
  history_shown :: int
  win_type :: win_type_t
  print_time :: print_time_fn
  print_line :: print_line_fn
  refresh_win :: refresh_fn
  presence_colour_on :: presence_colour_fn
  presence_colour_off :: presence_colour_fn
  show_contact :: show_contact_fn
  handle_error_message :: handle_error_fn
  print_incoming_message :: "incoming_fn option"

text \<open>\<open>PAD_SIZE\<close> is a macro of the window header: an argument here.\<close>

definition win_create :: "int \<Rightarrow> string \<Rightarrow> int \<Rightarrow> win_type_t \<Rightarrow> ProfWin" where
  "win_create PAD_SIZE title cols type =
     (let new_win =
        \<lparr>from_title = title,
         win = wbkgd (newpad PAD_SIZE cols) COLOUR_TEXT,
         y_pos = 0, paged = 0, unread = 0, history_shown = 0,
         win_type = type,
         print_time = Fn_win_print_time,
         print_line = Fn_win_print_line,
         refresh_win = Fn_win_refresh,
         presence_colour_on = Fn_win_presence_colour_on,
         presence_colour_off = Fn_win_presence_colour_off,
         show_contact = Fn_win_show_contact,
         handle_error_message = Fn_default_handle_error_message,
         print_incoming_message = None\<rparr>;
      new_win =
        (case win_type new_win of
           WIN_CONSOLE \<Rightarrow>
             new_win\<lparr>handle_error_message := Fn_default_handle_error_message,
                     print_incoming_message := None\<rparr>
         | WIN_CHAT \<Rightarrow>
             new_win\<lparr>handle_error_message := Fn_default_handle_error_message,
                     print_incoming_message := Some Fn_print_incoming_message\<rparr>
         | WIN_MUC \<Rightarrow>
             new_win\<lparr>handle_error_message := Fn_muc_handle_error_message,
                     print_incoming_message := None\<rparr>
         | WIN_PRIVATE \<Rightarrow>
             new_win\<lparr>handle_error_message := Fn_default_handle_error_message,
                     print_incoming_message := Some Fn_print_incoming_message\<rparr>
         | WIN_DUCK \<Rightarrow>
             new_win\<lparr>handle_error_message := Fn_default_handle_error_message,
                     print_incoming_message := None\<rparr>
         | WIN_UNRECOGNISED v \<Rightarrow>
             new_win\<lparr>handle_error_message := Fn_default_handle_error_message,
                     print_incoming_message := None\<rparr>)
      in new_win\<lparr>win := scrollok (win new_win) True\<rparr>)"

text \<open>
  \<open>_win_print_time\<close>: the clock value \<open>time\<close> is what its call of
  \<open>g_date_time_new_now_local\<close> returns.
\<close>

definition priv_win_print_time :: "ProfWin \<Rightarrow> GDateTime \<Rightarrow> char \<Rightarrow> ProfWin" where
  "priv_win_print_time self time show_char =
     (let date_fmt = g_date_time_format_HMS time;
          w = wattron (win self) COLOUR_TIME;
          w = wprintw w (date_fmt @ '' '' @ [show_char] @ '' '');
          w = wattroff w COLOUR_TIME
      in self\<lparr>win := w\<rparr>)"

text \<open>\<open>win_print_line\<close>: \<open>fmt_msg\<close> is the message after the expansion of its format.\<close>

definition win_print_line :: "ProfWin \<Rightarrow> GDateTime \<Rightarrow> char \<Rightarrow> colour \<Rightarrow> string \<Rightarrow> ProfWin" where
  "win_print_line self time show_char attrs fmt_msg =
     (let self = priv_win_print_time self time show_char;
          w = wattron (win self) attrs;
          w = wprintw w (fmt_msg @ [CHR 0x0A]);
          w = wattroff w attrs
      in self\<lparr>win := w\<rparr>)"

subsection \<open>The screen and \<open>win_refresh\<close>\<close>

text \<open>
  The screen \<open>stdscr\<close>: its size and what each position shows. Which cell ncurses keeps
  at a position of a pad is its own business: \<open>layout\<close>, an argument. \<open>prefresh\<close>
  copies the rectangle of the pad whose upper left corner is (\<open>pminrow\<close>, \<open>pmincol\<close>)
  onto the rectangle of the screen from (\<open>sminrow\<close>, \<open>smincol\<close>) to
  (\<open>smaxrow\<close>, \<open>smaxcol\<close>), both corners included; negative upper left corners count
  as zero, the rectangle is cut where the pad ends, and a screen rectangle that leaves the
  screen is an error that copies nothing.
\<close>

record SCREEN =
  scr_lines :: int
  scr_cols :: int
  glyphs :: "int \<Rightarrow> int \<Rightarrow> cell"

definition prefresh ::
  "(WINDOW \<Rightarrow> int \<Rightarrow> int \<Rightarrow> cell) \<Rightarrow> WINDOW \<Rightarrow> int \<Rightarrow> int \<Rightarrow> int \<Rightarrow> int \<Rightarrow> int \<Rightarrow> int
     \<Rightarrow> SCREEN \<Rightarrow> SCREEN" where
  "prefresh layout pad pminrow pmincol sminrow smincol smaxrow smaxcol scr =
     (let pr0 = max 0 pminrow; pc0 = max 0 pmincol;
          sr0 = max 0 sminrow; sc0 = max 0 smincol
      in if smaxrow \<ge> scr_lines scr \<or> smaxcol \<ge> scr_cols scr then scr
         else scr\<lparr>glyphs := (\<lambda>r c.
                if sr0 \<le> r \<and> r \<le> smaxrow \<and> sc0 \<le> c \<and> c \<le> smaxcol
                   \<and> pr0 + (r - sr0) < maxy pad \<and> pc0 + (c - sc0) < maxx pad
                then layout pad (pr0 + (r - sr0)) (pc0 + (c - sc0))
                else glyphs scr r c)\<rparr>)"

text \<open>\<open>win_refresh\<close> returns the window and the screen as they are after the call.\<close>

definition win_refresh ::
  "(WINDOW \<Rightarrow> int \<Rightarrow> int \<Rightarrow> cell) \<Rightarrow> ProfWin \<Rightarrow> SCREEN \<Rightarrow> ProfWin \<times> SCREEN" where
  "win_refresh layout self stdscr =
     (let rows = scr_lines stdscr; cols = scr_cols stdscr
      in (self, prefresh layout (win self) (y_pos self) 0 1 0 (rows - 3) (cols - 1) stdscr))"

subsection \<open>Presence colours and \<open>_win_show_contact\<close>\<close>

definition priv_win_presence_colour_on :: "ProfWin \<Rightarrow> string option \<Rightarrow> ProfWin" where
  "priv_win_presence_colour_on self presence =
     (if g_strcmp0 presence (Some ''online'') = 0 then
        self\<lparr>win := wattron (win self) COLOUR_ONLINE\<rparr>
      else if g_strcmp0 presence (Some ''away'') = 0 then
        self\<lparr>win := wattron (win self) COLOUR_AWAY\<rparr>
      else if g_strcmp0 presence (Some ''chat'') = 0 then
        self\<lparr>win := wattron (win self) COLOUR_CHAT\<rparr>
      else if g_strcmp0 presence (Some ''dnd'') = 0 then
        self\<lparr>win := wattron (win self) COLOUR_DND\<rparr>
      else if g_strcmp0 presence (Some ''xa'') = 0 then
        self\<lparr>win := wattron (win self) COLOUR_XA\<rparr>
      else
        self\<lparr>win := wattron (win self) COLOUR_OFFLINE\<rparr>)"

definition priv_win_presence_colour_off :: "ProfWin \<Rightarrow> string option \<Rightarrow> ProfWin" where
  "priv_win_presence_colour_off self presence =
     (if g_strcmp0 presence (Some ''online'') = 0 then
        self\<lparr>win := wattroff (win self) COLOUR_ONLINE\<rparr>
      else if g_strcmp0 presence (Some ''away'') = 0 then
        self\<lparr>win := wattroff (win self) COLOUR_AWAY\<rparr>
      else if g_strcmp0 presence (Some ''chat'') = 0 then
        self\<lparr>win := wattroff (win self) COLOUR_CHAT\<rparr>
      else if g_strcmp0 presence (Some ''dnd'') = 0 then
        self\<lparr>win := wattroff (win self) COLOUR_DND\<rparr>
      else if g_strcmp0 presence (Some ''xa'') = 0 then
        self\<lparr>win := wattroff (win self) COLOUR_XA\<rparr>
      else
        self\<lparr>win := wattroff (win self) COLOUR_OFFLINE\<rparr>)"

text \<open>
  A contact, as its accessors return it: the name, the presence, the status and the last
  activity may be NULL.
\<close>

record PContact =
  p_contact_barejid :: "string option"
  p_contact_name :: "string option"
  p_contact_presence :: "string option"
  p_contact_status :: "string option"
  p_contact_last_activity :: "GDateTime option"

text \<open>
  \<open>_win_show_contact\<close>: \<open>time\<close> is the clock value that \<open>_win_print_time\<close> reads
  and \<open>now\<close> the one read for the idle time.
\<close>

definition priv_win_show_contact :: "ProfWin \<Rightarrow> PContact \<Rightarrow> GDateTime \<Rightarrow> GDateTime \<Rightarrow> ProfWin" where
  "priv_win_show_contact self contact time now =
     (let barejid = p_contact_barejid contact;
          name = p_contact_name contact;
          presence = p_contact_presence contact;
          status = p_contact_status contact;
          last_activity = p_contact_last_activity contact;
          self = priv_win_print_time self time CHR ''-'';
          self = priv_win_presence_colour_on self presence;
          w = win self;
          w = (case name of
                 Some n \<Rightarrow> wprintw w n
               | None \<Rightarrow> wprintw w (printf_s barejid));
          w = wprintw w ('' is '' @ printf_s presence);
          w = (case last_activity of
                 None \<Rightarrow> w
               | Some la \<Rightarrow>
                   let span = g_date_time_difference now la;
                       w = wprintw w '', idle '';
                       hours = int_of_gint64 (span sdiv G_TIME_SPAN_HOUR);
                       span = gint64_wrap (span - hours * G_TIME_SPAN_HOUR);
                       w = (if hours > 0 then wprintw w (printf_d hours @ ''h'') else w);
                       minutes = int_of_gint64 (span sdiv G_TIME_SPAN_MINUTE);
                       span = gint64_wrap (span - minutes * G_TIME_SPAN_MINUTE);
                       w = wprintw w (printf_d minutes @ ''m'');
                       seconds = int_of_gint64 (span sdiv G_TIME_SPAN_SECOND)
                   in wprintw w (printf_d seconds @ ''s''));
          w = (case status of
                 None \<Rightarrow> w
               | Some st \<Rightarrow> wprintw w ('', '' @ [CHR 0x22] @ st @ [CHR 0x22]));
          w = wprintw w [CHR 0x0A]
      in priv_win_presence_colour_off (self\<lparr>win := w\<rparr>) presence)"

subsection \<open>Error messages and incoming messages\<close>

text \<open>A handler returns its result and the window as the call leaves it.\<close>

definition priv_default_handle_error_message ::
  "ProfWin \<Rightarrow> string \<Rightarrow> string \<Rightarrow> bool \<times> ProfWin" where
  "priv_default_handle_error_message self from err_msg = (False, self)"

text \<open>
  A call through the \<open>handle_error_message\<close> pointer of a window. The handler of chat
  rooms, \<open>muc_handle_error_message\<close>, is in another file: an argument.
\<close>

definition call_handle_error_message ::
  "(ProfWin \<Rightarrow> string \<Rightarrow> string \<Rightarrow> bool \<times> ProfWin) \<Rightarrow> ProfWin \<Rightarrow> string \<Rightarrow> string
     \<Rightarrow> bool \<times> ProfWin" where
  "call_handle_error_message muc_handle_error_message self from err_msg =
     (case handle_error_message self of
        Fn_default_handle_error_message \<Rightarrow> priv_default_handle_error_message self from err_msg
      | Fn_muc_handle_error_message \<Rightarrow> muc_handle_error_message self from err_msg)"

text \<open>
  \<open>_print_incoming_message\<close>: \<open>now\<close> is the clock value that the window's
  \<open>print_time\<close> reads when there is no time stamp.
\<close>

definition priv_print_incoming_message ::
  "ProfWin \<Rightarrow> GDateTime \<Rightarrow> GTimeVal option \<Rightarrow> string \<Rightarrow> string \<Rightarrow> ProfWin" where
  "priv_print_incoming_message self now tv_stamp from message =
     (let self =
        (case tv_stamp of
           None \<Rightarrow>
             (case print_time self of
                Fn_win_print_time \<Rightarrow> priv_win_print_time self now CHR ''-'')
         | Some tv \<Rightarrow>
             let time = g_date_time_new_from_timeval_utc tv;
                 date_fmt = g_date_time_format_HMS time;
                 w = wattron (win self) COLOUR_TIME;
                 w = wprintw w (date_fmt @ '' - '');
                 w = wattroff w COLOUR_TIME
             in self\<lparr>win := w\<rparr>);
          w = win self
      in if strncmp message ''/me '' 4 = 0 then
           let w = wattron w COLOUR_THEM;
               w = wprintw w (''*'' @ from @ '' '');
               w = waddstr w (drop 4 message);
               w = wprintw w [CHR 0x0A];
               w = wattroff w COLOUR_THEM
           in self\<lparr>win := w\<rparr>
         else
           let w = wattron w COLOUR_THEM;
               w = wprintw w (from @ '': '');
               w = wattroff w COLOUR_THEM;
               w = waddstr w message;
               w = wprintw w [CHR 0x0A]
           in self\<lparr>win := w\<rparr>)"

section \<open>tray.c\<close>

text \<open>
  The static variables of the file are the fields of \<open>tray\<close>; every function takes the
  state and returns the new one, or the fatal error that ends the process. \<open>events\<close>
  lists, in order, what the functions do to the world outside the file: the lines written
  to the standard error stream, the calls of GTK and glib that create, change and release
  the status icon and the timer, the queries of the unread count and the strings released.

  A \<open>GString *\<close> is NULL, points to a live string, or dangles after
  \<open>g_string_free\<close>. \<open>prof_tray\<close> is NULL or a status icon, known by the file it
  shows.
\<close>

datatype fatal = Null_dereference | Use_after_free | Double_free

datatype gstring_ptr = Null | Live string | Freed

datatype tray_event =
  Ev_stderr string
| Ev_status_icon_new string
| Ev_timeout_add nat
| Ev_unread_query
| Ev_set_from_file string
| Ev_source_remove nat
| Ev_widget_destroy
| Ev_string_free string

record tray =
  prof_tray :: "string option"
  icon_filename :: gstring_ptr
  icon_msg_filename :: gstring_ptr
  unread_messages :: int
  shutting_down :: bool
  timer :: nat
  events :: "tray_event list"

text \<open>The state when the program starts: C initialises static variables to zero.\<close>

definition tray_init :: tray where
  "tray_init =
     \<lparr>prof_tray = None, icon_filename = Null, icon_msg_filename = Null,
      unread_messages = 0, shutting_down = False, timer = 0, events = []\<rparr>"

text \<open>
  \<open>g_string_free\<close> returns what it releases: nothing for NULL (glib warns and returns),
  the string for a live pointer; a dangling pointer is released twice.
\<close>

definition g_string_free :: "gstring_ptr \<Rightarrow> fatal + tray_event list" where
  "g_string_free p =
     (case p of
        Null \<Rightarrow> Inr []
      | Live str \<Rightarrow> Inr [Ev_string_free str]
      | Freed \<Rightarrow> Inl Double_free)"

text \<open>
  What the file system holds at a path: no directory, a directory that \<open>g_dir_open\<close>
  cannot open (with the message of its error), or a directory with the names that
  \<open>g_dir_read_name\<close> returns, in order.
\<close>

datatype fs_dir = Not_a_directory | Unreadable string | Directory "string list"

text \<open>
  The \<open>while\<close> loop of \<open>_get_icons\<close>: it ends when \<open>g_dir_read_name\<close> returns
  NULL, of which \<open>g_string_new\<close> makes the empty string, and at an empty name.
\<close>

fun read_icons_dir :: "string \<Rightarrow> string list \<Rightarrow> tray \<Rightarrow> fatal + tray" where
  "read_icons_dir icons_dir [] s = Inr s"
| "read_icons_dir icons_dir (name # names) s =
     (if length name = 0 then Inr s
      else if g_strcmp0 (Some ''proIcon.png'') (Some name) = 0 then
        (case g_string_free (icon_filename s) of
           Inl e \<Rightarrow> Inl e
         | Inr ev \<Rightarrow>
             read_icons_dir icons_dir names
               (s\<lparr>icon_filename := Live (icons_dir @ ''/proIcon.png''),
                  events := events s @ ev\<rparr>))
      else if g_strcmp0 (Some ''proIconMsg.png'') (Some name) = 0 then
        (case g_string_free (icon_msg_filename s) of
           Inl e \<Rightarrow> Inl e
         | Inr ev \<Rightarrow>
             read_icons_dir icons_dir names
               (s\<lparr>icon_msg_filename := Live (icons_dir @ ''/proIconMsg.png''),
                  events := events s @ ev\<rparr>))
      else read_icons_dir icons_dir names s)"

text \<open>
  \<open>_get_icons\<close>. \<open>ICONS_PATH\<close> is the macro of the build, \<open>None\<close> when the build
  does not define it; \<open>xdg_config\<close> is what \<open>xdg_get_config_home\<close> returns and
  \<open>fs\<close> the file system.
\<close>

definition priv_get_icons ::
  "string option \<Rightarrow> string \<Rightarrow> (string \<Rightarrow> fs_dir) \<Rightarrow> tray \<Rightarrow> fatal + tray" where
  "priv_get_icons ICONS_PATH xdg_config fs s =
     (let s = (case ICONS_PATH of
                 None \<Rightarrow> s
               | Some path \<Rightarrow>
                   s\<lparr>icon_filename := Live (path @ ''/proIcon.png''),
                      icon_msg_filename := Live (path @ ''/proIconMsg.png'')\<rparr>);
          icons_dir = xdg_config @ ''/profanity/icons''
      in case fs icons_dir of
           Not_a_directory \<Rightarrow> Inr s
         | Directory names \<Rightarrow> read_icons_dir icons_dir names s
         | Unreadable message \<Rightarrow>
             Inr (s\<lparr>events := events s
                      @ [Ev_stderr (''Unable to open dir: '' @ message @ [CHR 0x0A])]\<rparr>))"

text \<open>GTK does nothing (but warn) when the status icon is NULL.\<close>

definition gtk_status_icon_set_from_file :: "tray \<Rightarrow> string \<Rightarrow> tray" where
  "gtk_status_icon_set_from_file s filename =
     (case prof_tray s of
        None \<Rightarrow> s
      | Some shown \<Rightarrow>
          s\<lparr>prof_tray := Some filename, events := events s @ [Ev_set_from_file filename]\<rparr>)"

text \<open>
  \<open>_tray_change_icon\<close>, the callback of the timer. \<open>total_unread\<close> is what
  \<open>wins_get_total_unread\<close> returns when the callback asks; \<open>->str\<close> reads through
  the pointer.
\<close>

definition priv_tray_change_icon :: "int \<Rightarrow> tray \<Rightarrow> fatal + bool \<times> tray" where
  "priv_tray_change_icon total_unread s =
     (if shutting_down s then Inr (False, s)
      else
        let s = s\<lparr>unread_messages := total_unread, events := events s @ [Ev_unread_query]\<rparr>
        in if unread_messages s \<noteq> 0 then
             (case icon_msg_filename s of
                Null \<Rightarrow> Inl Null_dereference
              | Freed \<Rightarrow> Inl Use_after_free
              | Live str \<Rightarrow> Inr (True, gtk_status_icon_set_from_file s str))
           else
             (case icon_filename s of
                Null \<Rightarrow> Inl Null_dereference
              | Freed \<Rightarrow> Inl Use_after_free
              | Live str \<Rightarrow> Inr (True, gtk_status_icon_set_from_file s str)))"

text \<open>\<open>create_tray\<close>: \<open>source_id\<close> is the identifier that \<open>g_timeout_add\<close> returns.\<close>

definition create_tray ::
  "string option \<Rightarrow> string \<Rightarrow> (string \<Rightarrow> fs_dir) \<Rightarrow> nat \<Rightarrow> tray \<Rightarrow> fatal + tray" where
  "create_tray ICONS_PATH xdg_config fs source_id s =
     (case priv_get_icons ICONS_PATH xdg_config fs s of
        Inl e \<Rightarrow> Inl e
      | Inr s \<Rightarrow>
          (case icon_filename s of
             Null \<Rightarrow> Inl Null_dereference
           | Freed \<Rightarrow> Inl Use_after_free
           | Live str \<Rightarrow>
               Inr (s\<lparr>prof_tray := Some str, shutting_down := False, timer := source_id,
                       events := events s @ [Ev_status_icon_new str, Ev_timeout_add 5000]\<rparr>)))"

text \<open>
  \<open>destroy_tray\<close>. The two pointers keep their values: one that was live dangles
  afterwards.
\<close>

definition destroy_tray :: "tray \<Rightarrow> fatal + tray" where
  "destroy_tray s =
     (let s = s\<lparr>shutting_down := True\<rparr>;
          s = s\<lparr>events := events s @ [Ev_source_remove (timer s)]\<rparr>;
          s = (if prof_tray s \<noteq> None
               then s\<lparr>events := events s @ [Ev_widget_destroy], prof_tray := None\<rparr>
               else s)
      in case g_string_free (icon_filename s) of
           Inl e \<Rightarrow> Inl e
         | Inr ev \<Rightarrow>
             let s = s\<lparr>icon_filename := (if icon_filename s = Null then Null else Freed),
                        events := events s @ ev\<rparr>
             in case g_string_free (icon_msg_filename s) of
                  Inl e \<Rightarrow> Inl e
                | Inr ev \<Rightarrow>
                    Inr (s\<lparr>icon_msg_filename :=
                              (if icon_msg_filename s = Null then Null else Freed),
                            events := events s @ ev\<rparr>))"

text \<open>
  The timer at work: the callback runs once for each unread count of the list, whatever it
  returned before.
\<close>

fun tray_ticks :: "int list \<Rightarrow> tray \<Rightarrow> fatal + bool list \<times> tray" where
  "tray_ticks [] s = Inr ([], s)"
| "tray_ticks (u # us) s =
     (case priv_tray_change_icon u s of
        Inl e \<Rightarrow> Inl e
      | Inr (b, s') \<Rightarrow>
          (case tray_ticks us s' of
             Inl e \<Rightarrow> Inl e
           | Inr (bs, s'') \<Rightarrow> Inr (b # bs, s'')))"

section \<open>What the specification says, in its own words\<close>

text \<open>
  The presence colour policy: each of the five presences has an attribute of its own;
  every other value, an absent one included, has the offline attribute.
\<close>

definition spec_presence_attribute :: "string option \<Rightarrow> colour" where
  "spec_presence_attribute p =
     (if p = Some ''online'' then COLOUR_ONLINE
      else if p = Some ''away'' then COLOUR_AWAY
      else if p = Some ''chat'' then COLOUR_CHAT
      else if p = Some ''dnd'' then COLOUR_DND
      else if p = Some ''xa'' then COLOUR_XA
      else COLOUR_OFFLINE)"

text \<open>
  The idle time of a duration in whole seconds: hours, then minutes, then seconds, each
  from what the one before leaves; the hours only when there are any.
\<close>

definition spec_idle_tokens :: "int \<Rightarrow> string" where
  "spec_idle_tokens secs =
     (let hours = secs div 3600;
          minutes = secs mod 3600 div 60;
          seconds = secs mod 60
      in (if hours > 0 then printf_d hours @ ''h'' else [])
           @ printf_d minutes @ ''m'' @ printf_d seconds @ ''s'')"

section \<open>Example inputs\<close>

definition example_window :: ProfWin where
  "example_window = win_create 1000 ''bob@example.org'' 80 WIN_CHAT"

definition example_contact :: PContact where
  "example_contact =
     \<lparr>p_contact_barejid = Some ''bob@example.org'', p_contact_name = Some ''bob'',
      p_contact_presence = Some ''away'', p_contact_status = None,
      p_contact_last_activity = Some \<lparr>instant = 0, utc_offset = 0\<rparr>\<rparr>"

definition at_second :: "int \<Rightarrow> GDateTime" where
  "at_second n = \<lparr>instant = n * 1000000, utc_offset = 0\<rparr>"

definition example_layout :: "WINDOW \<Rightarrow> int \<Rightarrow> int \<Rightarrow> cell" where
  "example_layout w r c = ({}, if r = 0 \<and> c = 0 then CHR ''a'' else CHR '' '')"

definition example_screen :: SCREEN where
  "example_screen = \<lparr>scr_lines = 24, scr_cols = 80, glyphs = (\<lambda>r c. ({}, CHR ''#''))\<rparr>"

definition example_muc_handler :: "ProfWin \<Rightarrow> string \<Rightarrow> string \<Rightarrow> bool \<times> ProfWin" where
  "example_muc_handler self from err_msg = (True, self\<lparr>win := wprintw (win self) err_msg\<rparr>)"

definition example_tray :: tray where
  "example_tray =
     \<lparr>prof_tray = Some ''/usr/share/profanity/icons/proIcon.png'',
      icon_filename = Live ''/usr/share/profanity/icons/proIcon.png'',
      icon_msg_filename = Live ''/usr/share/profanity/icons/proIconMsg.png'',
      unread_messages = 0, shutting_down = False, timer = 7,
      events = [Ev_status_icon_new ''/usr/share/profanity/icons/proIcon.png'',
                Ev_timeout_add 5000]\<rparr>"

definition example_tray_destroyed :: tray where
  "example_tray_destroyed =
     example_tray
       \<lparr>prof_tray := None, icon_filename := Freed, icon_msg_filename := Freed,
        shutting_down := True,
        events := events example_tray
          @ [Ev_source_remove 7, Ev_widget_destroy,
             Ev_string_free ''/usr/share/profanity/icons/proIcon.png'',
             Ev_string_free ''/usr/share/profanity/icons/proIconMsg.png'']\<rparr>"

section \<open>Properties\<close>

subsection \<open>Strings, pads and time spans\<close>

lemma strcmp_eq_0_iff: "(strcmp s t = 0) = (s = t)"
  by (induction s t rule: strcmp.induct) auto

lemma strncmp_eq_0_iff: "(strncmp s t n = 0) = (take n s = take n t)"
  by (induction s t n rule: strncmp.induct) auto

lemma g_strcmp0_eq_0_iff: "(g_strcmp0 p q = 0) = (p = q)"
  by (cases p; cases q) (simp_all add: strcmp_eq_0_iff)

lemma strncmp_me: "(strncmp message ''/me '' 4 = 0) = (take 4 message = ''/me '')"
  by (simp add: strncmp_eq_0_iff)

lemma calls_wcall: "calls (wcall w c) = calls w @ [c]"
  by (simp add: wcall_def)

lemma attrs_after_append: "attrs_after A (xs @ ys) = attrs_after (attrs_after A xs) ys"
  by (induction A xs rule: attrs_after.induct) simp_all

lemma cells_from_append:
  "cells_from A (xs @ ys) = cells_from A xs @ cells_from (attrs_after A xs) ys"
  by (induction A xs rule: cells_from.induct) simp_all

lemma pen_wattron: "pen (wattron w c) = insert c (pen w)"
  by (simp add: pen_def wattron_def calls_wcall attrs_after_append)

lemma pen_wattroff: "pen (wattroff w c) = pen w - {c}"
  by (simp add: pen_def wattroff_def calls_wcall attrs_after_append)

lemma pen_wprintw: "pen (wprintw w s) = pen w"
  by (simp add: pen_def wprintw_def calls_wcall attrs_after_append)

lemma pen_waddstr: "pen (waddstr w s) = pen w"
  by (simp add: pen_def waddstr_def calls_wcall attrs_after_append)

lemma cells_wattron: "cells (wattron w c) = cells w"
  by (simp add: cells_def wattron_def calls_wcall cells_from_append)

lemma cells_wattroff: "cells (wattroff w c) = cells w"
  by (simp add: cells_def wattroff_def calls_wcall cells_from_append)

lemma cells_wprintw: "cells (wprintw w s) = cells w @ map (Pair (pen w)) s"
  by (simp add: cells_def pen_def wprintw_def calls_wcall cells_from_append)

lemma cells_waddstr: "cells (waddstr w s) = cells w @ map (Pair (pen w)) s"
  by (simp add: cells_def pen_def waddstr_def calls_wcall cells_from_append)

lemmas pad_simps = pen_wattron pen_wattroff pen_wprintw pen_waddstr
  cells_wattron cells_wattroff cells_wprintw cells_waddstr

lemma pad_text_wattron: "pad_text (wattron w c) = pad_text w"
  by (simp add: pad_text_def cells_wattron)

lemma pad_text_wattroff: "pad_text (wattroff w c) = pad_text w"
  by (simp add: pad_text_def cells_wattroff)

lemma pad_text_wprintw: "pad_text (wprintw w s) = pad_text w @ s"
  by (simp add: pad_text_def cells_wprintw comp_def)

lemma pad_text_waddstr: "pad_text (waddstr w s) = pad_text w @ s"
  by (simp add: pad_text_def cells_waddstr comp_def)

lemmas pad_text_simps = pad_text_wattron pad_text_wattroff pad_text_wprintw pad_text_waddstr

lemma cells_print_time:
  "pen (win self) = {} \<Longrightarrow>
   cells (win (priv_win_print_time self time show_char))
     = cells (win self)
         @ map (Pair {COLOUR_TIME}) (g_date_time_format_HMS time @ '' '' @ [show_char] @ '' '')"
  by (simp add: priv_win_print_time_def Let_def pad_simps)

lemma pen_print_time:
  "pen (win (priv_win_print_time self time show_char)) = pen (win self) - {COLOUR_TIME}"
  by (simp add: priv_win_print_time_def Let_def pad_simps)

lemma pad_text_print_time:
  "pad_text (win (priv_win_print_time self time show_char))
     = pad_text (win self) @ g_date_time_format_HMS time @ '' '' @ [show_char] @ '' ''"
  by (simp add: priv_win_print_time_def Let_def pad_text_simps)

lemma pad_text_presence_colour_on:
  "pad_text (win (priv_win_presence_colour_on self p)) = pad_text (win self)"
  by (simp add: priv_win_presence_colour_on_def pad_text_simps)

lemma pad_text_presence_colour_off:
  "pad_text (win (priv_win_presence_colour_off self p)) = pad_text (win self)"
  by (simp add: priv_win_presence_colour_off_def pad_text_simps)

text \<open>
  No attribute is switched on in a window just created, and every printing function of
  the file that finds none switched on leaves none switched on.
\<close>

lemma pen_win_create: "pen (win (win_create PAD_SIZE title cols k)) = {}"
  by (cases k)
     (simp_all add: win_create_def Let_def pen_def newpad_def wbkgd_def scrollok_def wcall_def)

lemma pen_win_print_line:
  "pen (win self) = {} \<Longrightarrow> pen (win (win_print_line self time show_char attrs fmt_msg)) = {}"
  by (simp add: win_print_line_def Let_def pad_simps pen_print_time)

lemma pen_presence_colour_on:
  "pen (win (priv_win_presence_colour_on self p))
     = insert (spec_presence_attribute p) (pen (win self))"
  by (simp add: priv_win_presence_colour_on_def spec_presence_attribute_def
        g_strcmp0_eq_0_iff pad_simps)

lemma pen_presence_colour_off:
  "pen (win (priv_win_presence_colour_off self p))
     = pen (win self) - {spec_presence_attribute p}"
  by (simp add: priv_win_presence_colour_off_def spec_presence_attribute_def
        g_strcmp0_eq_0_iff pad_simps)

lemma pen_win_show_contact:
  "pen (win self) = {} \<Longrightarrow> pen (win (priv_win_show_contact self contact time now)) = {}"
  by (simp add: priv_win_show_contact_def Let_def pad_simps pen_print_time
        pen_presence_colour_on pen_presence_colour_off
        split: option.split)

lemma pen_print_incoming_message:
  "pen (win self) = {} \<Longrightarrow>
   pen (win (priv_print_incoming_message self now tv_stamp from message)) = {}"
  by (cases tv_stamp; cases "print_time self")
     (simp_all add: priv_print_incoming_message_def Let_def pad_simps pen_print_time)

text \<open>A window just created is empty, and no attribute is switched on.\<close>

lemma calls_example_window: "calls (win example_window) = [Wbkgd COLOUR_TEXT, Scrollok True]"
  by (simp add: example_window_def win_create_def Let_def newpad_def wbkgd_def scrollok_def
        wcall_def)

lemma pen_example_window: "pen (win example_window) = {}"
  by (simp add: pen_def calls_example_window)

lemma cells_example_window: "cells (win example_window) = []"
  by (simp add: cells_def calls_example_window)

lemma pad_text_example_window: "pad_text (win example_window) = []"
  by (simp add: pad_text_def cells_example_window)

lemma format_HMS_midnight: "g_date_time_format_HMS (at_second 0) = ''00:00:00''"
  by (simp add: at_second_def g_date_time_format_HMS_def two_digits_def digit_char_def)

text \<open>Division and conversion where nothing overflows.\<close>

lemma sdiv_nonneg: "0 \<le> k \<Longrightarrow> 0 < l \<Longrightarrow> k sdiv l = k div (l::int)"
  by (cases "k = 0") (simp_all add: signed_divide_int_def)

lemma int_of_gint64_id: "- (2 ^ 31) \<le> x \<Longrightarrow> x < 2 ^ 31 \<Longrightarrow> int_of_gint64 x = x"
  by (simp add: int_of_gint64_def)

lemma gint64_wrap_id: "- (2 ^ 63) \<le> x \<Longrightarrow> x < 2 ^ 63 \<Longrightarrow> gint64_wrap x = x"
  by (simp add: gint64_wrap_def)

lemma hours_of_span: "(span::int) div 3600000000 = span div 1000000 div 3600"
proof -
  have "span div (1000000 * 3600) = span div 1000000 div 3600"
    by (rule zdiv_zmult2_eq) simp
  then show ?thesis by simp
qed

lemma minutes_of_span:
  "(span::int) mod 3600000000 div 60000000 = span div 1000000 mod 3600 div 60"
proof -
  have a: "span mod (1000000 * 3600) = 1000000 * (span div 1000000 mod 3600) + span mod 1000000"
    by (rule zmod_zmult2_eq) simp
  have "(span mod 3600000000) div (1000000 * 60) = (span mod 3600000000) div 1000000 div 60"
    by (rule zdiv_zmult2_eq) simp
  moreover have "(span mod 3600000000) div 1000000 = span div 1000000 mod 3600"
    using a by simp
  ultimately show ?thesis by simp
qed

lemma seconds_of_span:
  "((span::int) mod 3600000000) mod 60000000 div 1000000 = span div 1000000 mod 60"
proof -
  have "(span mod 3600000000) mod 60000000 = span mod 60000000"
    by (rule mod_mod_cancel) simp
  moreover have
    "span mod (1000000 * 60) = 1000000 * (span div 1000000 mod 60) + span mod 1000000"
    by (rule zmod_zmult2_eq) simp
  ultimately show ?thesis by simp
qed

lemma idle_hours:
  assumes "0 \<le> S" "S < 2 ^ 31 * 3600000000"
  shows "int_of_gint64 (S sdiv G_TIME_SPAN_HOUR) = S div 1000000 div 3600"
proof -
  have "S sdiv G_TIME_SPAN_HOUR = S div 3600000000"
    using assms by (simp add: G_TIME_SPAN_HOUR_def sdiv_nonneg)
  moreover have "0 \<le> S div 3600000000" using assms by simp
  moreover have "S div 3600000000 < 2 ^ 31"
    using assms by (simp add: div_less_iff_less_mult)
  ultimately show ?thesis
    by (simp add: int_of_gint64_id hours_of_span)
qed

lemma idle_rest_hours:
  assumes "0 \<le> S"
  shows "gint64_wrap (S - S div 1000000 div 3600 * G_TIME_SPAN_HOUR) = S mod 3600000000"
proof -
  have "S - S div 3600000000 * 3600000000 = S mod 3600000000"
    by (rule minus_div_mult_eq_mod)
  moreover have "0 \<le> S mod 3600000000" "S mod 3600000000 < 3600000000"
    by simp_all
  ultimately show ?thesis
    by (simp add: G_TIME_SPAN_HOUR_def hours_of_span [symmetric] gint64_wrap_id)
qed

lemma idle_minutes:
  "int_of_gint64 ((S mod 3600000000) sdiv G_TIME_SPAN_MINUTE) = S div 1000000 mod 3600 div 60"
proof -
  have "(S mod 3600000000) sdiv G_TIME_SPAN_MINUTE = S mod 3600000000 div 60000000"
    by (simp add: G_TIME_SPAN_MINUTE_def sdiv_nonneg)
  moreover have "0 \<le> S div 1000000 mod 3600 div 60" by simp
  moreover have "S div 1000000 mod 3600 div 60 < 60"
    by (simp add: div_less_iff_less_mult)
  ultimately show ?thesis
    by (simp add: int_of_gint64_id minutes_of_span)
qed

lemma idle_rest_minutes:
  "gint64_wrap (S mod 3600000000 - S div 1000000 mod 3600 div 60 * G_TIME_SPAN_MINUTE)
     = S mod 3600000000 mod 60000000"
proof -
  let ?R = "S mod 3600000000"
  have "?R - ?R div 60000000 * 60000000 = ?R mod 60000000"
    by (rule minus_div_mult_eq_mod)
  moreover have "0 \<le> ?R mod 60000000" "?R mod 60000000 < 60000000"
    by simp_all
  ultimately show ?thesis
    by (simp add: G_TIME_SPAN_MINUTE_def minutes_of_span [symmetric] gint64_wrap_id)
qed

lemma idle_seconds:
  "int_of_gint64 ((S mod 3600000000 mod 60000000) sdiv G_TIME_SPAN_SECOND)
     = S div 1000000 mod 60"
proof -
  have "(S mod 3600000000 mod 60000000) sdiv G_TIME_SPAN_SECOND
          = S mod 3600000000 mod 60000000 div 1000000"
    by (simp add: G_TIME_SPAN_SECOND_def sdiv_nonneg)
  moreover have "0 \<le> S div 1000000 mod 60" "S div 1000000 mod 60 < 60" by simp_all
  ultimately show ?thesis
    by (simp add: int_of_gint64_id seconds_of_span)
qed

lemma difference_nonneg:
  assumes "0 \<le> instant now - instant la" "instant now - instant la < 2 ^ 31 * 3600000000"
  shows "g_date_time_difference now la = instant now - instant la"
  using assms by (simp add: g_date_time_difference_def gint64_wrap_id)

lemma spec_idle_examples:
  "spec_idle_tokens 3661 = ''1h1m1s''"
  "spec_idle_tokens 59 = ''0m59s''"
  "spec_idle_tokens 3600 = ''1h0m0s''"
  by (simp_all add: spec_idle_tokens_def Let_def printf_d_def digit_char_def)

text \<open>The timer's callback when the shutdown flag is set.\<close>

lemma tick_shutting_down:
  "shutting_down s \<Longrightarrow> priv_tray_change_icon total_unread s = Inr (False, s)"
  by (simp add: priv_tray_change_icon_def)

lemma ticks_shutting_down:
  "shutting_down s \<Longrightarrow> tray_ticks us s = Inr (replicate (length us) False, s)"
  by (induction us) (simp_all add: tick_shutting_down)

lemma destroy_tray_shutting_down:
  "destroy_tray s = Inr s' \<Longrightarrow> shutting_down s'"
  by (auto simp add: destroy_tray_def Let_def g_string_free_def
        split: sum.splits gstring_ptr.splits if_splits)

lemma destroy_tray_releases:
  "destroy_tray s = Inr s' \<Longrightarrow>
   events s' = events s @ [Ev_source_remove (timer s)]
     @ (if prof_tray s \<noteq> None then [Ev_widget_destroy] else [])
     @ (case icon_filename s of Live str \<Rightarrow> [Ev_string_free str] | Null \<Rightarrow> [] | Freed \<Rightarrow> [])
     @ (case icon_msg_filename s of
          Live str \<Rightarrow> [Ev_string_free str] | Null \<Rightarrow> [] | Freed \<Rightarrow> [])
   \<and> prof_tray s' = None
   \<and> icon_filename s' = (if icon_filename s = Null then Null else Freed)
   \<and> icon_msg_filename s' = (if icon_msg_filename s = Null then Null else Freed)"
  by (auto simp add: destroy_tray_def Let_def g_string_free_def
        split: sum.splits gstring_ptr.splits if_splits)

lemma destroy_example_tray: "destroy_tray example_tray = Inr example_tray_destroyed"
  by (simp add: destroy_tray_def example_tray_def example_tray_destroyed_def Let_def
        g_string_free_def)

subsection \<open>The claims\<close>

text \<open>
  C1. For every window kind, the window that \<open>win_create\<close> returns has a
  \<open>print_incoming_message\<close> entry exactly when the kind is chat or private chat: the
  entry is NULL for the console, a chat room, the duck window and every unrecognised
  value.
\<close>

theorem win_create_print_incoming_message_iff:
  "(print_incoming_message (win_create PAD_SIZE title cols k) \<noteq> None)
     = (k = WIN_CHAT \<or> k = WIN_PRIVATE)"
  by (cases k) (simp_all add: win_create_def Let_def)

text \<open>
  C2. The content rule of \<open>_print_incoming_message\<close>, for every sender and message. On
  a window where no attribute is switched on (the state in which \<open>win_create\<close> and every
  printing function of the file leave a window), the call appends the time stamp and then:
  when the message starts with the four characters \<open>/me \<close>, the action line, a star,
  the sender, a space and the rest of the message after the prefix, then a newline, all
  in the attribute of the other party; otherwise the sender and \<open>: \<close> in that
  attribute, then the message and a newline in the default rendition. The action line is
  exactly that: the code writes neither the separator \<open>: \<close> nor the prefix, and
  copies the sender and the rest as they are.
\<close>

theorem print_incoming_message_content_rule:
  assumes "pen (win self) = {}"
  shows "cells (win (priv_print_incoming_message self now tv_stamp from message))
    = cells (win self)
      @ map (Pair {COLOUR_TIME})
          (g_date_time_format_HMS
             (case tv_stamp of None \<Rightarrow> now | Some tv \<Rightarrow> g_date_time_new_from_timeval_utc tv)
           @ '' - '')
      @ (if take 4 message = ''/me ''
         then map (Pair {COLOUR_THEM}) (''*'' @ from @ '' '' @ drop 4 message @ [CHR 0x0A])
         else map (Pair {COLOUR_THEM}) (from @ '': '') @ map (Pair {}) (message @ [CHR 0x0A]))"
proof (cases tv_stamp)
  case None
  show ?thesis using assms
    by (cases "print_time self")
       (simp add: None priv_print_incoming_message_def Let_def strncmp_me pad_simps
          cells_print_time pen_print_time)
next
  case (Some tv)
  show ?thesis using assms
    by (simp add: Some priv_print_incoming_message_def Let_def strncmp_me pad_simps)
qed

theorem print_incoming_message_content_rule_witness:
  "pen (win example_window) = {}
   \<and> cells (win (priv_print_incoming_message example_window (at_second 0) None
         ''alice'' ''/me waves''))
       = map (Pair {COLOUR_TIME}) ''00:00:00 - ''
         @ map (Pair {COLOUR_THEM}) (''*alice waves'' @ [CHR 0x0A])
   \<and> cells (win (priv_print_incoming_message example_window (at_second 0) None
         ''alice'' ''hello''))
       = map (Pair {COLOUR_TIME}) ''00:00:00 - ''
         @ map (Pair {COLOUR_THEM}) ''alice: '' @ map (Pair {}) (''hello'' @ [CHR 0x0A])"
  using print_incoming_message_content_rule
          [OF pen_example_window, of "at_second 0" None "''alice''" "''/me waves''"]
        print_incoming_message_content_rule
          [OF pen_example_window, of "at_second 0" None "''alice''" "''hello''"]
  by (simp add: pen_example_window cells_example_window format_HMS_midnight)

text \<open>
  C3. For every presence, NULL and unknown values included, \<open>_win_presence_colour_on\<close>
  switches on and \<open>_win_presence_colour_off\<close> switches off the same attribute, the one
  of the presence colour policy, and change nothing else of the window: each of
  \<open>online\<close>, \<open>away\<close>, \<open>chat\<close>, \<open>dnd\<close> and \<open>xa\<close> has an attribute of its
  own, every other value has the offline attribute. The attributes are the macros of the
  theme header, told apart by their names.
\<close>

theorem presence_colour_on_off_same_attribute:
  "priv_win_presence_colour_on self p
     = self\<lparr>win := wattron (win self) (spec_presence_attribute p)\<rparr>
   \<and> priv_win_presence_colour_off self p
     = self\<lparr>win := wattroff (win self) (spec_presence_attribute p)\<rparr>
   \<and> distinct (map spec_presence_attribute
        [Some ''online'', Some ''away'', Some ''chat'', Some ''dnd'', Some ''xa'', None])"
  by (simp add: priv_win_presence_colour_on_def priv_win_presence_colour_off_def
        spec_presence_attribute_def g_strcmp0_eq_0_iff)

text \<open>
  C4. The idle time that \<open>_win_show_contact\<close> prints. For a contact with a last
  activity that is not after \<open>now\<close>, the text written is the time stamp, the name (or
  the bare identifier), the presence, then \<open>, idle \<close> and the duration in whole
  seconds taken apart as the specification says: hours, then minutes from what the hours
  leave, then seconds from what the minutes leave, the hours only when there are any, the
  minutes and the seconds always. The duration is one whose hours fit the \<open>int\<close> they
  are stored in; the difference of two \<open>GDateTime\<close> values, which lie between the
  years 1 and 9999, always is.
\<close>

theorem show_contact_idle_decomposition:
  assumes la: "p_contact_last_activity contact = Some la"
      and nonneg: "0 \<le> instant now - instant la"
      and fits: "instant now - instant la < 2 ^ 31 * G_TIME_SPAN_HOUR"
  shows "pad_text (win (priv_win_show_contact self contact time now))
    = pad_text (win self) @ g_date_time_format_HMS time @ '' - ''
      @ (case p_contact_name contact of
           Some n \<Rightarrow> n | None \<Rightarrow> printf_s (p_contact_barejid contact))
      @ '' is '' @ printf_s (p_contact_presence contact)
      @ '', idle '' @ spec_idle_tokens ((instant now - instant la) div 1000000)
      @ (case p_contact_status contact of
           None \<Rightarrow> [] | Some st \<Rightarrow> '', '' @ [CHR 0x22] @ st @ [CHR 0x22])
      @ [CHR 0x0A]"
proof -
  let ?S = "instant now - instant la"
  have fits': "?S < 2 ^ 31 * 3600000000"
    using fits by (simp add: G_TIME_SPAN_HOUR_def)
  note idle = difference_nonneg [OF nonneg fits'] idle_hours [OF nonneg fits']
    idle_rest_hours [OF nonneg] idle_minutes idle_rest_minutes idle_seconds
  show ?thesis
    by (cases "p_contact_name contact"; cases "p_contact_status contact")
       (simp_all add: priv_win_show_contact_def Let_def la idle spec_idle_tokens_def
          pad_text_simps pad_text_print_time pad_text_presence_colour_on
          pad_text_presence_colour_off)
qed

text \<open>The three durations of the specification: 3661, 59 and 3600 seconds.\<close>

theorem show_contact_idle_decomposition_witness:
  "pad_text (win (priv_win_show_contact example_window example_contact
       (at_second 0) (at_second 3661)))
     = ''00:00:00 - bob is away, idle 1h1m1s'' @ [CHR 0x0A]
   \<and> pad_text (win (priv_win_show_contact example_window example_contact
       (at_second 0) (at_second 59)))
     = ''00:00:00 - bob is away, idle 0m59s'' @ [CHR 0x0A]
   \<and> pad_text (win (priv_win_show_contact example_window example_contact
       (at_second 0) (at_second 3600)))
     = ''00:00:00 - bob is away, idle 1h0m0s'' @ [CHR 0x0A]"
  using show_contact_idle_decomposition
          [of example_contact "\<lparr>instant = 0, utc_offset = 0\<rparr>" "at_second 3661"
              example_window "at_second 0"]
        show_contact_idle_decomposition
          [of example_contact "\<lparr>instant = 0, utc_offset = 0\<rparr>" "at_second 59"
              example_window "at_second 0"]
        show_contact_idle_decomposition
          [of example_contact "\<lparr>instant = 0, utc_offset = 0\<rparr>" "at_second 3600"
              example_window "at_second 0"]
  by (simp add: example_contact_def pad_text_example_window spec_idle_examples
        format_HMS_midnight G_TIME_SPAN_HOUR_def printf_s_def
        at_second_def [of 3661] at_second_def [of 59] at_second_def [of 3600])

text \<open>
  C5. A message with a time stamp, in a time zone one hour east of UTC. The stamp is the
  instant 1970-01-01 00:00:00 UTC, which is 01:00:00 local time. The code makes a UTC
  value of the stamp and formats that: it writes \<open>00:00:00\<close>, the wall clock of UTC,
  and converts nothing to local time. (Without a stamp the code prints the local time
  that \<open>g_date_time_new_now_local\<close> returns.)
\<close>

theorem print_incoming_message_timestamp_is_utc:
  "pad_text (win (priv_print_incoming_message example_window (at_second 7200)
       (Some \<lparr>tv_sec = 0, tv_usec = 0\<rparr>) ''alice'' ''hello''))
     = ''00:00:00 - alice: hello'' @ [CHR 0x0A]
   \<and> g_date_time_format_HMS
        (g_date_time_to_local (\<lambda>t. 3600)
           (g_date_time_new_from_timeval_utc \<lparr>tv_sec = 0, tv_usec = 0\<rparr>))
       = ''01:00:00''"
  by (simp add: priv_print_incoming_message_def Let_def pad_text_simps pad_text_example_window
        g_date_time_new_from_timeval_utc_def g_date_time_to_local_def g_date_time_format_HMS_def
        two_digits_def digit_char_def strncmp_me)

text \<open>
  C6. The default handler of error messages returns false and the window as it was, for
  every sender and error text; and a window created with any kind but the chat room has
  that handler, so a call through its \<open>handle_error_message\<close> pointer returns false and
  leaves the window, its pad included, unchanged.
\<close>

theorem default_handle_error_message_unhandled:
  "priv_default_handle_error_message self from err_msg = (False, self)
   \<and> (k \<noteq> WIN_MUC \<longrightarrow>
        call_handle_error_message muc (win_create PAD_SIZE title cols k) from err_msg
          = (False, win_create PAD_SIZE title cols k))"
  by (cases k)
     (simp_all add: priv_default_handle_error_message_def call_handle_error_message_def
        win_create_def Let_def)

theorem default_handle_error_message_unhandled_witness:
  "WIN_CHAT \<noteq> WIN_MUC
   \<and> call_handle_error_message example_muc_handler example_window
         ''alice'' ''service unavailable''
       = (False, example_window)"
  using default_handle_error_message_unhandled
          [of example_window "''alice''" "''service unavailable''" WIN_CHAT
              example_muc_handler 1000 "''bob@example.org''" 80]
  by (simp add: example_window_def)

text \<open>
  C7. \<open>win_refresh\<close> leaves the window as it is, pad and every other field, and keeps
  the size of the screen. It leaves alone every position of the screen above row 1 and
  below row \<open>rows - 3\<close>: the top row, and the two bottom rows. A position in between,
  at row \<open>r\<close> and column \<open>c\<close>, shows the cell of the pad at row
  \<open>y_pos + (r - 1)\<close> and column \<open>c\<close> where the pad has one (a negative \<open>y_pos\<close>
  counts as zero). A second call right after the first changes nothing.
\<close>

theorem win_refresh_view:
  "fst (win_refresh layout self stdscr) = self
   \<and> scr_lines (snd (win_refresh layout self stdscr)) = scr_lines stdscr
   \<and> scr_cols (snd (win_refresh layout self stdscr)) = scr_cols stdscr
   \<and> (r < 1 \<or> scr_lines stdscr - 3 < r \<longrightarrow>
        glyphs (snd (win_refresh layout self stdscr)) r c = glyphs stdscr r c)
   \<and> (1 \<le> r \<and> r \<le> scr_lines stdscr - 3 \<and> 0 \<le> c \<and> c \<le> scr_cols stdscr - 1
        \<and> max 0 (y_pos self) + (r - 1) < maxy (win self) \<and> c < maxx (win self) \<longrightarrow>
        glyphs (snd (win_refresh layout self stdscr)) r c
          = layout (win self) (max 0 (y_pos self) + (r - 1)) c)
   \<and> win_refresh layout (fst (win_refresh layout self stdscr))
         (snd (win_refresh layout self stdscr))
       = win_refresh layout self stdscr"
  by (auto simp add: win_refresh_def prefresh_def Let_def fun_eq_iff)

text \<open>
  On a screen of 24 rows: row 0 and rows 22 and 23 keep what they showed; rows 1 and 21
  show rows 0 and 20 of the pad.
\<close>

theorem win_refresh_view_witness:
  "glyphs (snd (win_refresh example_layout example_window example_screen)) 0 0 = ({}, CHR ''#'')
   \<and> glyphs (snd (win_refresh example_layout example_window example_screen)) 1 0
       = ({}, CHR ''a'')
   \<and> glyphs (snd (win_refresh example_layout example_window example_screen)) 21 0
       = ({}, CHR '' '')
   \<and> glyphs (snd (win_refresh example_layout example_window example_screen)) 22 0
       = ({}, CHR ''#'')
   \<and> glyphs (snd (win_refresh example_layout example_window example_screen)) 23 0
       = ({}, CHR ''#'')"
  using win_refresh_view [of example_layout example_window example_screen 0 0]
        win_refresh_view [of example_layout example_window example_screen 1 0]
        win_refresh_view [of example_layout example_window example_screen 21 0]
        win_refresh_view [of example_layout example_window example_screen 22 0]
        win_refresh_view [of example_layout example_window example_screen 23 0]
  by (simp add: example_screen_def example_layout_def example_window_def win_create_def
        Let_def newpad_def wbkgd_def scrollok_def wcall_def)

text \<open>
  C8. A build that does not define \<open>ICONS_PATH\<close>, and no icon directory of the user:
  \<open>_get_icons\<close> returns at once, writes nothing to the standard error stream and leaves
  \<open>icon_filename\<close> NULL; \<open>create_tray\<close> then reads through the NULL pointer.
\<close>

theorem create_tray_without_icon_crashes:
  "priv_get_icons None xdg_config (\<lambda>path. Not_a_directory) tray_init = Inr tray_init
   \<and> create_tray None xdg_config (\<lambda>path. Not_a_directory) source_id tray_init
       = Inl Null_dereference"
  by (simp add: create_tray_def priv_get_icons_def tray_init_def)

text \<open>
  C9. The callback of the timer looks at the shutdown flag first: with the flag set it
  returns false, the value that ends the polling, and changes nothing, so it asks for no
  unread count and sets no icon. \<open>destroy_tray\<close> sets the flag: after it every tick,
  however many follow, is such a tick. \<open>destroy_tray\<close> itself removes the timer once,
  destroys the status icon once if there is one and releases each file name once if it is
  live; afterwards no status icon and no live file name is left to release.
\<close>

theorem tray_tick_after_shutdown:
  "(shutting_down t \<longrightarrow> priv_tray_change_icon total_unread t = Inr (False, t))
   \<and> (destroy_tray s = Inr s' \<longrightarrow>
        shutting_down s'
        \<and> tray_ticks us s' = Inr (replicate (length us) False, s')
        \<and> events s' = events s @ [Ev_source_remove (timer s)]
            @ (if prof_tray s \<noteq> None then [Ev_widget_destroy] else [])
            @ (case icon_filename s of
                 Live str \<Rightarrow> [Ev_string_free str] | Null \<Rightarrow> [] | Freed \<Rightarrow> [])
            @ (case icon_msg_filename s of
                 Live str \<Rightarrow> [Ev_string_free str] | Null \<Rightarrow> [] | Freed \<Rightarrow> [])
        \<and> prof_tray s' = None
        \<and> icon_filename s' = (if icon_filename s = Null then Null else Freed)
        \<and> icon_msg_filename s' = (if icon_msg_filename s = Null then Null else Freed))"
  using destroy_tray_releases [of s s']
  by (auto simp add: tick_shutting_down ticks_shutting_down destroy_tray_shutting_down)

text \<open>
  A tray with its two icons and timer 7, destroyed, then three ticks with unread counts
  0, 3 and 0.
\<close>

theorem tray_tick_after_shutdown_witness:
  "destroy_tray example_tray = Inr example_tray_destroyed
   \<and> shutting_down example_tray_destroyed
   \<and> priv_tray_change_icon 3 example_tray_destroyed = Inr (False, example_tray_destroyed)
   \<and> tray_ticks [0, 3, 0] example_tray_destroyed
       = Inr ([False, False, False], example_tray_destroyed)
   \<and> events example_tray_destroyed
       = events example_tray
         @ [Ev_source_remove 7, Ev_widget_destroy,
            Ev_string_free ''/usr/share/profanity/icons/proIcon.png'',
            Ev_string_free ''/usr/share/profanity/icons/proIconMsg.png'']"
  using tray_tick_after_shutdown
          [of example_tray_destroyed 3 example_tray example_tray_destroyed "[0, 3, 0]"]
        destroy_example_tray
  by (simp add: example_tray_def)

text \<open>
  C10. The action line needs the space: for the message \<open>/me\<close>, and for a message
  that starts with \<open>/me\<close> and goes on with any character but a space, the text written
  is the ordinary line, the sender, \<open>: \<close> and the whole message as it is, \<open>/me\<close>
  included.
\<close>

theorem print_incoming_message_me_needs_space:
  assumes "message = ''/me'' \<or> (\<exists>c rest. message = ''/me'' @ c # rest \<and> c \<noteq> CHR '' '')"
  shows "pad_text (win (priv_print_incoming_message self now tv_stamp from message))
    = pad_text (win self)
      @ g_date_time_format_HMS
          (case tv_stamp of None \<Rightarrow> now | Some tv \<Rightarrow> g_date_time_new_from_timeval_utc tv)
      @ '' - '' @ from @ '': '' @ message @ [CHR 0x0A]"
proof -
  have "take 4 message \<noteq> ''/me ''"
    using assms by auto
  then show ?thesis
    by (cases tv_stamp; cases "print_time self")
       (simp_all add: priv_print_incoming_message_def Let_def strncmp_me pad_text_simps
          pad_text_print_time)
qed

theorem print_incoming_message_me_needs_space_witness:
  "pad_text (win (priv_print_incoming_message example_window (at_second 0) None
       ''alice'' ''/me''))
     = ''00:00:00 - alice: /me'' @ [CHR 0x0A]
   \<and> pad_text (win (priv_print_incoming_message example_window (at_second 0) None
       ''alice'' ''/men''))
     = ''00:00:00 - alice: /men'' @ [CHR 0x0A]"
  using print_incoming_message_me_needs_space
          [of "''/me''" example_window "at_second 0" None "''alice''"]
        print_incoming_message_me_needs_space
          [of "''/men''" example_window "at_second 0" None "''alice''"]
  by (simp add: pad_text_example_window format_HMS_midnight)

end
